theory Spec2Isabelle
  imports Main
begin

section \<open>JavaScript strings\<close>

text \<open>
  The paths and host names of \<^verbatim>\<open>cache.ts\<close> are JavaScript strings. They are modelled
  as \<^typ>\<open>string\<close>, and the three string methods the file calls are written out:
  \<^verbatim>\<open>endsWith\<close>, \<^verbatim>\<open>lastIndexOf\<close> (the greatest index at which the search string
  occurs, \<open>-1\<close> when it does not occur) and \<^verbatim>\<open>substr(start, length)\<close>.
\<close>

definition endsWith :: "string \<Rightarrow> string \<Rightarrow> bool" where
  "endsWith s x = (length x \<le> length s \<and> drop (length s - length x) s = x)"

fun lastIndexOf_from :: "string \<Rightarrow> string \<Rightarrow> nat \<Rightarrow> int" where
  "lastIndexOf_from s x 0 = (if take (length x) s = x then 0 else - 1)"
| "lastIndexOf_from s x (Suc i) =
     (if take (length x) (drop (Suc i) s) = x then int (Suc i) else lastIndexOf_from s x i)"

definition lastIndexOf :: "string \<Rightarrow> string \<Rightarrow> int" where
  "lastIndexOf s x =
     (if length s < length x then - 1 else lastIndexOf_from s x (length s - length x))"

definition substr :: "string \<Rightarrow> int \<Rightarrow> int \<Rightarrow> string" where
  "substr s start len =
     (let size = int (length s);
          st = (if start < 0 then max (size + start) 0 else min start size);
          n = min (max len 0) (size - st)
      in take (nat n) (drop (nat st) s))"

text \<open>\<^verbatim>\<open>path[0]\<close>: index 0 of an array, \<^verbatim>\<open>undefined\<close> (here \<open>None\<close>) when the array is empty.\<close>

definition at0 :: "'a list \<Rightarrow> 'a option" where
  "at0 xs = (case xs of [] \<Rightarrow> None | x # _ \<Rightarrow> Some x)"

section \<open>Path variants\<close>

text \<open>
  \<^verbatim>\<open>heatCache\<close> (lines 126--130) and \<^verbatim>\<open>purgeCache\<close> (lines 146--150) build the
  array \<^verbatim>\<open>filenameVariants\<close> with the same statements:
  \<^verbatim>\<open>
  const filenameVariants = [filePath];
  if (filePath.endsWith('/index.html')) {
    filenameVariants.push(filePath.substr(0, filePath.lastIndexOf('/index.html')));
    filenameVariants.push(filePath.substr(0, filePath.lastIndexOf('index.html')));
  }
  \<close>
\<close>

definition filenameVariants :: "string \<Rightarrow> string list" where
  "filenameVariants filePath =
     [filePath] @
     (if endsWith filePath ''/index.html''
      then [substr filePath 0 (lastIndexOf filePath ''/index.html''),
            substr filePath 0 (lastIndexOf filePath ''index.html'')]
      else [])"

text \<open>
  \<^verbatim>\<open>toLowerCase\<close> on the letters \<open>A\<close> to \<open>Z\<close> (codes 65 to 90), whose lower-case
  letter is 32 higher: the bit of weight 32 is set. Every other character is left as it
  is. The file applies it to a hexadecimal digest only.
\<close>

definition toLowerCase_char :: "char \<Rightarrow> char" where
  "toLowerCase_char c =
     (let n = (of_char c :: nat)
      in if 65 \<le> n \<and> n \<le> 90
         then (case c of Char b0 b1 b2 b3 b4 b5 b6 b7 \<Rightarrow> Char b0 b1 b2 b3 b4 True b6 b7)
         else c)"

definition toLowerCase :: "string \<Rightarrow> string" where
  "toLowerCase s = map toLowerCase_char s"

text \<open>
  A number in a template literal: the decimal digits of an integer, with a minus sign
  when it is negative (the configuration values are integers of seconds).
\<close>

definition digit_char :: "nat \<Rightarrow> char" where
  "digit_char n = ''0123456789'' ! (n mod 10)"

function digits :: "nat \<Rightarrow> string" where
  "digits n = (if n < 10 then [digit_char n] else digits (n div 10) @ [digit_char n])"
  by pat_completeness auto
termination
  by (relation "measure (\<lambda>n. n)") auto

declare digits.simps [simp del]

definition show_int :: "int \<Rightarrow> string" where
  "show_int i = (if i < 0 then ''-'' @ digits (nat (- i)) else digits (nat i))"

section \<open>SHA-256\<close>

text \<open>
  \<^verbatim>\<open>cache.ts\<close> imports \<^verbatim>\<open>SHA256\<close> from the package crypto-js, which is not part of
  the repository. \<^verbatim>\<open>SHA256(s).toString()\<close> is the SHA-256 digest of the bytes of \<open>s\<close>
  in hexadecimal, with the digits \<open>a\<close> to \<open>f\<close> in lower case. The function is written
  out here after FIPS 180-4. A 32-bit word is the list of its bits, least significant bit
  first, so that the bitwise operations and the addition modulo \<open>2 ^ 32\<close> are structural
  recursions.
\<close>

type_synonym w32 = "bool list"

fun xorw :: "w32 \<Rightarrow> w32 \<Rightarrow> w32" where
  "xorw (a # x) (b # y) = (a \<noteq> b) # xorw x y"
| "xorw _ _ = []"

fun andw :: "w32 \<Rightarrow> w32 \<Rightarrow> w32" where
  "andw (a # x) (b # y) = (a \<and> b) # andw x y"
| "andw _ _ = []"

definition notw :: "w32 \<Rightarrow> w32" where
  "notw x = map Not x"

fun addc :: "bool \<Rightarrow> w32 \<Rightarrow> w32 \<Rightarrow> w32" where
  "addc c (a # x) (b # y) = (a \<noteq> (b \<noteq> c)) # addc ((a \<and> b) \<or> (c \<and> (a \<noteq> b))) x y"
| "addc c _ _ = []"

definition addw :: "w32 \<Rightarrow> w32 \<Rightarrow> w32" where
  "addw x y = addc False x y"

definition rotr :: "nat \<Rightarrow> w32 \<Rightarrow> w32" where
  "rotr n x = drop n x @ take n x"

definition shr :: "nat \<Rightarrow> w32 \<Rightarrow> w32" where
  "shr n x = drop n x @ map (\<lambda>_. False) (take n x)"

definition Ch :: "w32 \<Rightarrow> w32 \<Rightarrow> w32 \<Rightarrow> w32" where
  "Ch x y z = xorw (andw x y) (andw (notw x) z)"

definition Maj :: "w32 \<Rightarrow> w32 \<Rightarrow> w32 \<Rightarrow> w32" where
  "Maj x y z = xorw (xorw (andw x y) (andw x z)) (andw y z)"

definition Sigma0 :: "w32 \<Rightarrow> w32" where
  "Sigma0 x = xorw (xorw (rotr 2 x) (rotr 13 x)) (rotr 22 x)"

definition Sigma1 :: "w32 \<Rightarrow> w32" where
  "Sigma1 x = xorw (xorw (rotr 6 x) (rotr 11 x)) (rotr 25 x)"

definition sigma0 :: "w32 \<Rightarrow> w32" where
  "sigma0 x = xorw (xorw (rotr 7 x) (rotr 18 x)) (shr 3 x)"

definition sigma1 :: "w32 \<Rightarrow> w32" where
  "sigma1 x = xorw (xorw (rotr 17 x) (rotr 19 x)) (shr 10 x)"

datatype hexdigit = X0 | X1 | X2 | X3 | X4 | X5 | X6 | X7 | X8 | X9 | Xa | Xb | Xc | Xd | Xe | Xf

fun nibble :: "hexdigit \<Rightarrow> bool list" where
  "nibble X0 = [False, False, False, False]"
| "nibble X1 = [True, False, False, False]"
| "nibble X2 = [False, True, False, False]"
| "nibble X3 = [True, True, False, False]"
| "nibble X4 = [False, False, True, False]"
| "nibble X5 = [True, False, True, False]"
| "nibble X6 = [False, True, True, False]"
| "nibble X7 = [True, True, True, False]"
| "nibble X8 = [False, False, False, True]"
| "nibble X9 = [True, False, False, True]"
| "nibble Xa = [False, True, False, True]"
| "nibble Xb = [True, True, False, True]"
| "nibble Xc = [False, False, True, True]"
| "nibble Xd = [True, False, True, True]"
| "nibble Xe = [False, True, True, True]"
| "nibble Xf = [True, True, True, True]"

fun hexchar :: "bool \<Rightarrow> bool \<Rightarrow> bool \<Rightarrow> bool \<Rightarrow> char" where
  "hexchar False False False False = CHR ''0''"
| "hexchar True False False False = CHR ''1''"
| "hexchar False True False False = CHR ''2''"
| "hexchar True True False False = CHR ''3''"
| "hexchar False False True False = CHR ''4''"
| "hexchar True False True False = CHR ''5''"
| "hexchar False True True False = CHR ''6''"
| "hexchar True True True False = CHR ''7''"
| "hexchar False False False True = CHR ''8''"
| "hexchar True False False True = CHR ''9''"
| "hexchar False True False True = CHR ''a''"
| "hexchar True True False True = CHR ''b''"
| "hexchar False False True True = CHR ''c''"
| "hexchar True False True True = CHR ''d''"
| "hexchar False True True True = CHR ''e''"
| "hexchar True True True True = CHR ''f''"

text \<open>A word from its eight hexadecimal digits, and back (most significant digit first).\<close>

fun word_of_hex :: "hexdigit list \<Rightarrow> w32" where
  "word_of_hex [] = []"
| "word_of_hex (c # cs) = word_of_hex cs @ nibble c"

fun hex_of_word :: "w32 \<Rightarrow> string" where
  "hex_of_word (a # b # c # d # r) = hex_of_word r @ [hexchar a b c d]"
| "hex_of_word _ = []"

definition K :: "w32 list" where
  "K = map word_of_hex
   [[X4,X2,X8,Xa,X2,Xf,X9,X8], [X7,X1,X3,X7,X4,X4,X9,X1], [Xb,X5,Xc,X0,Xf,Xb,Xc,Xf], [Xe,X9,Xb,X5,Xd,Xb,Xa,X5],
    [X3,X9,X5,X6,Xc,X2,X5,Xb], [X5,X9,Xf,X1,X1,X1,Xf,X1], [X9,X2,X3,Xf,X8,X2,Xa,X4], [Xa,Xb,X1,Xc,X5,Xe,Xd,X5],
    [Xd,X8,X0,X7,Xa,Xa,X9,X8], [X1,X2,X8,X3,X5,Xb,X0,X1], [X2,X4,X3,X1,X8,X5,Xb,Xe], [X5,X5,X0,Xc,X7,Xd,Xc,X3],
    [X7,X2,Xb,Xe,X5,Xd,X7,X4], [X8,X0,Xd,Xe,Xb,X1,Xf,Xe], [X9,Xb,Xd,Xc,X0,X6,Xa,X7], [Xc,X1,X9,Xb,Xf,X1,X7,X4],
    [Xe,X4,X9,Xb,X6,X9,Xc,X1], [Xe,Xf,Xb,Xe,X4,X7,X8,X6], [X0,Xf,Xc,X1,X9,Xd,Xc,X6], [X2,X4,X0,Xc,Xa,X1,Xc,Xc],
    [X2,Xd,Xe,X9,X2,Xc,X6,Xf], [X4,Xa,X7,X4,X8,X4,Xa,Xa], [X5,Xc,Xb,X0,Xa,X9,Xd,Xc], [X7,X6,Xf,X9,X8,X8,Xd,Xa],
    [X9,X8,X3,Xe,X5,X1,X5,X2], [Xa,X8,X3,X1,Xc,X6,X6,Xd], [Xb,X0,X0,X3,X2,X7,Xc,X8], [Xb,Xf,X5,X9,X7,Xf,Xc,X7],
    [Xc,X6,Xe,X0,X0,Xb,Xf,X3], [Xd,X5,Xa,X7,X9,X1,X4,X7], [X0,X6,Xc,Xa,X6,X3,X5,X1], [X1,X4,X2,X9,X2,X9,X6,X7],
    [X2,X7,Xb,X7,X0,Xa,X8,X5], [X2,Xe,X1,Xb,X2,X1,X3,X8], [X4,Xd,X2,Xc,X6,Xd,Xf,Xc], [X5,X3,X3,X8,X0,Xd,X1,X3],
    [X6,X5,X0,Xa,X7,X3,X5,X4], [X7,X6,X6,Xa,X0,Xa,Xb,Xb], [X8,X1,Xc,X2,Xc,X9,X2,Xe], [X9,X2,X7,X2,X2,Xc,X8,X5],
    [Xa,X2,Xb,Xf,Xe,X8,Xa,X1], [Xa,X8,X1,Xa,X6,X6,X4,Xb], [Xc,X2,X4,Xb,X8,Xb,X7,X0], [Xc,X7,X6,Xc,X5,X1,Xa,X3],
    [Xd,X1,X9,X2,Xe,X8,X1,X9], [Xd,X6,X9,X9,X0,X6,X2,X4], [Xf,X4,X0,Xe,X3,X5,X8,X5], [X1,X0,X6,Xa,Xa,X0,X7,X0],
    [X1,X9,Xa,X4,Xc,X1,X1,X6], [X1,Xe,X3,X7,X6,Xc,X0,X8], [X2,X7,X4,X8,X7,X7,X4,Xc], [X3,X4,Xb,X0,Xb,Xc,Xb,X5],
    [X3,X9,X1,Xc,X0,Xc,Xb,X3], [X4,Xe,Xd,X8,Xa,Xa,X4,Xa], [X5,Xb,X9,Xc,Xc,Xa,X4,Xf], [X6,X8,X2,Xe,X6,Xf,Xf,X3],
    [X7,X4,X8,Xf,X8,X2,Xe,Xe], [X7,X8,Xa,X5,X6,X3,X6,Xf], [X8,X4,Xc,X8,X7,X8,X1,X4], [X8,Xc,Xc,X7,X0,X2,X0,X8],
    [X9,X0,Xb,Xe,Xf,Xf,Xf,Xa], [Xa,X4,X5,X0,X6,Xc,Xe,Xb], [Xb,Xe,Xf,X9,Xa,X3,Xf,X7], [Xc,X6,X7,X1,X7,X8,Xf,X2]]"

definition H0 :: "w32 list" where
  "H0 = map word_of_hex
   [[X6,Xa,X0,X9,Xe,X6,X6,X7], [Xb,Xb,X6,X7,Xa,Xe,X8,X5], [X3,Xc,X6,Xe,Xf,X3,X7,X2], [Xa,X5,X4,Xf,Xf,X5,X3,Xa],
    [X5,X1,X0,Xe,X5,X2,X7,Xf], [X9,Xb,X0,X5,X6,X8,X8,Xc], [X1,Xf,X8,X3,Xd,X9,Xa,Xb], [X5,Xb,Xe,X0,Xc,Xd,X1,X9]]"

text \<open>
  The message schedule is kept as a window of sixteen words, oldest first: the head is the
  word of the current round, and the word sixteen rounds later is appended.
\<close>

definition next_w :: "w32 list \<Rightarrow> w32" where
  "next_w w = addw (addw (addw (sigma1 (w ! 14)) (w ! 9)) (sigma0 (w ! 1))) (w ! 0)"

definition round_out :: "w32 \<Rightarrow> w32 \<Rightarrow> w32 list \<Rightarrow> w32 list" where
  "round_out t1 t2 s = [addw t1 t2, s ! 0, s ! 1, s ! 2, addw (s ! 3) t1, s ! 4, s ! 5, s ! 6]"

definition round :: "w32 list \<Rightarrow> w32 \<Rightarrow> w32 \<Rightarrow> w32 list" where
  "round s k w =
     round_out (addw (addw (addw (addw (s ! 7) (Sigma1 (s ! 4))) (Ch (s ! 4) (s ! 5) (s ! 6))) k) w)
               (addw (Sigma0 (s ! 0)) (Maj (s ! 0) (s ! 1) (s ! 2))) s"

fun rounds :: "w32 list \<Rightarrow> w32 list \<Rightarrow> w32 list \<Rightarrow> w32 list" where
  "rounds [] w s = s"
| "rounds (k # ks) w s = rounds ks (tl w @ [next_w w]) (round s k (hd w))"

definition compress :: "w32 list \<Rightarrow> w32 list \<Rightarrow> w32 list" where
  "compress h blk = map2 addw h (rounds K blk h)"

text \<open>
  Padding, on bytes (each byte the list of its eight bits, least significant first): the
  byte \<open>0x80\<close>, zero bytes up to eight bytes short of a multiple of 64, and the length of
  the message in bits as eight bytes, most significant first. Four bytes make a word, the
  first byte the most significant.
\<close>

fun bits_of_char :: "char \<Rightarrow> bool list" where
  "bits_of_char (Char b0 b1 b2 b3 b4 b5 b6 b7) = [b0, b1, b2, b3, b4, b5, b6, b7]"

fun bits_of_nat :: "nat \<Rightarrow> nat \<Rightarrow> bool list" where
  "bits_of_nat 0 k = []"
| "bits_of_nat (Suc n) k = odd k # bits_of_nat n (k div 2)"

fun bytes_of_bits :: "bool list \<Rightarrow> bool list list" where
  "bytes_of_bits (b0 # b1 # b2 # b3 # b4 # b5 # b6 # b7 # r) =
     bytes_of_bits r @ [[b0, b1, b2, b3, b4, b5, b6, b7]]"
| "bytes_of_bits _ = []"

definition pad :: "bool list list \<Rightarrow> bool list list" where
  "pad m = m @ [bits_of_nat 8 128] @ replicate ((119 - length m mod 64) mod 64) (bits_of_nat 8 0)
             @ bytes_of_bits (bits_of_nat 64 (8 * length m))"

fun words_of :: "bool list list \<Rightarrow> w32 list" where
  "words_of (a # b # c # d # r) = (d @ c @ b @ a) # words_of r"
| "words_of _ = []"

fun blocks :: "nat \<Rightarrow> w32 list \<Rightarrow> w32 list list" where
  "blocks 0 ws = []"
| "blocks (Suc n) ws = take 16 ws # blocks n (drop 16 ws)"

definition sha256 :: "string \<Rightarrow> w32 list" where
  "sha256 s =
     (let ws = words_of (pad (map bits_of_char s))
      in foldl compress H0 (blocks (length ws div 16) ws))"

definition SHA256_toString :: "string \<Rightarrow> string" where
  "SHA256_toString s = concat (map hex_of_word (sha256 s))"

section \<open>Data model\<close>

text \<open>
  \<^verbatim>\<open>interface CachedDomain { domain: string; lastSeen: number }\<close>. What
  \<^verbatim>\<open>registerRequestHost\<close> sends as \<^verbatim>\<open>lastSeen\<close> is the placeholder
  \<^verbatim>\<open>admin.database.ServerValue.TIMESTAMP\<close>, which the database replaces by its own clock
  when it stores the entry; what is read back is a number.
\<close>

record 'ts CachedDomain =
  domain :: string
  lastSeen :: 'ts

datatype server_value = TIMESTAMP

definition hostRegistry_path :: string where
  "hostRegistry_path = ''cacheDomains''"

text \<open>
  \<^verbatim>\<open>CONFIG_DEFAULT\<close> (lines 18--21), an object as a map from property names to values.
\<close>

definition CONFIG_DEFAULT :: "string \<rightharpoonup> int" where
  "CONFIG_DEFAULT = [''s_max_age'' \<mapsto> 60 * 60 * 24 * 365, ''max_age'' \<mapsto> 60 * 10]"

section \<open>getCacheHeader\<close>

text \<open>
  \<^verbatim>\<open>functions.config().cache\<close> is the argument: \<open>None\<close> when the runtime configuration
  has no \<^verbatim>\<open>cache\<close> section (\<^verbatim>\<open>|| {}\<close> then gives the empty object). The object
  spread \<^verbatim>\<open>{ ...CONFIG_DEFAULT, ...cache }\<close> is map override. A property that is absent
  prints as \<^verbatim>\<open>undefined\<close>.
\<close>

definition show_property :: "int option \<Rightarrow> string" where
  "show_property v = (case v of None \<Rightarrow> ''undefined'' | Some i \<Rightarrow> show_int i)"

definition getCacheHeader :: "(string \<rightharpoonup> int) option \<Rightarrow> string" where
  "getCacheHeader cache =
     (let config = CONFIG_DEFAULT ++ (case cache of None \<Rightarrow> Map.empty | Some c \<Rightarrow> c)
      in ''public, max-age='' @ show_property (config ''max_age'') @
         '', s-maxage='' @ show_property (config ''s_max_age''))"

section \<open>The CDN client\<close>

text \<open>
  \<^verbatim>\<open>purgeFromCdn\<close> and \<^verbatim>\<open>heatUpCdn\<close> (lines 164--196) build the request options and
  return \<^verbatim>\<open>new Promise((resolve) => { https.get(opts, (res) => { ...; resolve(null); }); })\<close>.
  The second argument of \<^verbatim>\<open>https.get\<close> is a listener for the request's
  \<^verbatim>\<open>response\<close> event, and it holds the only call of \<^verbatim>\<open>resolve\<close>. The executor takes
  no \<^verbatim>\<open>reject\<close>, and no listener is registered for the request's \<^verbatim>\<open>error\<close> event.
  So the promise is resolved when a response arrives, whatever its status, and is left
  pending when the request ends with a connection error (Node then raises the unhandled
  \<^verbatim>\<open>error\<close> event as an uncaught exception of the process).
\<close>

datatype http_method = PURGE | GET

record request_options =
  hostname :: string
  port :: nat
  path :: string
  http_method :: http_method

datatype net_outcome = Response nat string | ConnectionError string

datatype js_error = TypeError

datatype settle = Resolved | Rejected js_error | Pending

definition purgeFromCdn :: "(request_options \<Rightarrow> net_outcome) \<Rightarrow> string \<Rightarrow> string \<Rightarrow> request_options \<times> settle" where
  "purgeFromCdn net host p =
     (let opts = \<lparr>hostname = host, port = 443, path = p, http_method = PURGE\<rparr>
      in (opts, case net opts of Response statusCode statusMessage \<Rightarrow> Resolved
                               | ConnectionError e \<Rightarrow> Pending))"

definition heatUpCdn :: "(request_options \<Rightarrow> net_outcome) \<Rightarrow> string \<Rightarrow> string \<Rightarrow> request_options \<times> settle" where
  "heatUpCdn net host p =
     (let opts = \<lparr>hostname = host, port = 443, path = p, http_method = GET\<rparr>
      in (opts, case net opts of Response statusCode statusMessage \<Rightarrow> Resolved
                               | ConnectionError e \<Rightarrow> Pending))"

text \<open>
  \<^verbatim>\<open>Promise.all\<close>: rejected as soon as one promise is rejected, resolved when all are,
  pending otherwise.
\<close>

fun promise_all :: "settle list \<Rightarrow> settle" where
  "promise_all [] = Resolved"
| "promise_all (Rejected e # ps) = Rejected e"
| "promise_all (Resolved # ps) = promise_all ps"
| "promise_all (Pending # ps) = (case promise_all ps of Rejected e \<Rightarrow> Rejected e | _ \<Rightarrow> Pending)"

section \<open>The environment of the cache functions\<close>

text \<open>
  What the functions of \<^verbatim>\<open>cache.ts\<close> read from outside the file is a parameter:
  the children of \<^verbatim>\<open>cacheDomains\<close> in the database at a given time (key and value, in
  the order \<^verbatim>\<open>forEach\<close> visits them), the outcome of each HTTPS request, the outcome of
  each database write, and the values of the functions of \<^verbatim>\<open>./site\<close> and
  \<^verbatim>\<open>./content\<close>, which are not among the sources. A document is the \<^verbatim>\<open>path\<close>
  field of its data, \<open>None\<close> when the field is absent; a document snapshot of a write
  event is \<open>None\<close> when \<^verbatim>\<open>exists\<close> is false.

  Time is the clock of the event loop in milliseconds. Only \<^verbatim>\<open>setTimeout\<close> advances it:
  a database read and a response arrive at the time of the call that asked for them.
\<close>

record doc_data =
  doc_path :: "string list option"

type_synonym doc_snapshot = "doc_data option"

record db_write =
  db_ref :: string
  db_child :: string
  db_data :: "server_value CachedDomain"

record env =
  hostRegistry :: "nat \<Rightarrow> (string \<times> nat CachedDomain) list"
  https_get :: "request_options \<Rightarrow> net_outcome"
  db_set :: "db_write \<Rightarrow> settle"
  getDomains :: "string list"
  getDefaultDomain :: string
  getThemeFiles :: "string \<Rightarrow> string list"
  getAllDocuments :: "doc_data list"
  getPublicPathToStorageFile :: "string \<Rightarrow> string"

text \<open>
  What an asynchronous function does: the HTTPS requests it issues, each with the time at
  which it is issued, and the state its promise ends in.
\<close>

record effect =
  calls :: "(nat \<times> request_options) list"
  outcome :: settle

definition all_effects :: "effect list \<Rightarrow> effect" where
  "all_effects es = \<lparr>calls = concat (map calls es), outcome = promise_all (map outcome es)\<rparr>"

definition then_effect :: "effect \<Rightarrow> effect \<Rightarrow> effect" where
  "then_effect a b = \<lparr>calls = calls a @ calls b, outcome = outcome b\<rparr>"

section \<open>purgeCache and heatCache\<close>

text \<open>
  \<^verbatim>\<open>purgeCache\<close> (lines 144--162): the variants, then the registry snapshot, then one
  \<^verbatim>\<open>purgeFromCdn\<close> for every child of the snapshot and every variant, all awaited
  together.
\<close>

definition purgeCache :: "env \<Rightarrow> nat \<Rightarrow> string \<Rightarrow> effect" where
  "purgeCache E t filePath =
     (let variants = filenameVariants filePath;
          snap = hostRegistry E t;
          promises = concat (map (\<lambda>childSnap.
                       map (\<lambda>filenameVariant. purgeFromCdn (https_get E) (domain (snd childSnap)) filenameVariant)
                         variants) snap)
      in \<lparr>calls = map (\<lambda>p. (t, fst p)) promises, outcome = promise_all (map snd promises)\<rparr>)"

text \<open>
  \<^verbatim>\<open>heatCache\<close> (lines 121--142): first \<^verbatim>\<open>await new Promise((resolve) => setTimeout(resolve, delay))\<close>,
  with \<^verbatim>\<open>delay\<close> 10000 when the argument is not given; the rest is as in
  \<^verbatim>\<open>purgeCache\<close>, with \<^verbatim>\<open>heatUpCdn\<close>, at the time the timer fires.
\<close>

definition heatCache :: "env \<Rightarrow> nat \<Rightarrow> string \<Rightarrow> nat option \<Rightarrow> effect" where
  "heatCache E t filePath delay =
     (let t' = t + (case delay of None \<Rightarrow> 10000 | Some d \<Rightarrow> d);
          variants = filenameVariants filePath;
          snap = hostRegistry E t';
          promises = concat (map (\<lambda>childSnap.
                       map (\<lambda>filenameVariant. heatUpCdn (https_get E) (domain (snd childSnap)) filenameVariant)
                         variants) snap)
      in \<lparr>calls = map (\<lambda>p. (t', fst p)) promises, outcome = promise_all (map snd promises)\<rparr>)"

text \<open>
  The callers pass \<^verbatim>\<open>path[0]\<close>, which is \<^verbatim>\<open>undefined\<close> for an empty array. Both
  functions then fail at \<^verbatim>\<open>filePath.endsWith\<close> with a \<^verbatim>\<open>TypeError\<close>, before any
  request: the promise of the async function is rejected.
\<close>

definition purgeCache_arg :: "env \<Rightarrow> nat \<Rightarrow> string option \<Rightarrow> effect" where
  "purgeCache_arg E t arg =
     (case arg of None \<Rightarrow> \<lparr>calls = [], outcome = Rejected TypeError\<rparr>
                | Some filePath \<Rightarrow> purgeCache E t filePath)"

definition heatCache_arg :: "env \<Rightarrow> nat \<Rightarrow> string option \<Rightarrow> nat option \<Rightarrow> effect" where
  "heatCache_arg E t arg delay =
     (case arg of None \<Rightarrow> \<lparr>calls = [], outcome = Rejected TypeError\<rparr>
                | Some filePath \<Rightarrow> heatCache E t filePath delay)"

section \<open>The reactions\<close>

text \<open>
  \<^verbatim>\<open>tanam_onDocWriteUpdateCache\<close> (lines 33--54). The test
  \<^verbatim>\<open>snap.before.exists && !!docBeforeChange.path\<close> holds when the snapshot exists and
  its data has a \<^verbatim>\<open>path\<close> array (an empty array is truthy too). The two purges are
  awaited together; \<^verbatim>\<open>heatCache\<close> is called only when that \<^verbatim>\<open>await\<close> returns.
\<close>

definition snapshot_path :: "doc_snapshot \<Rightarrow> string list option" where
  "snapshot_path snap = (case snap of None \<Rightarrow> None | Some d \<Rightarrow> doc_path d)"

definition tanam_onDocWriteUpdateCache :: "env \<Rightarrow> nat \<Rightarrow> doc_snapshot \<Rightarrow> doc_snapshot \<Rightarrow> effect" where
  "tanam_onDocWriteUpdateCache E t before after =
     (let purged = (case snapshot_path before of
                      Some p \<Rightarrow> all_effects [purgeCache E t ''/sitemap.xml'', purgeCache_arg E t (at0 p)]
                    | None \<Rightarrow> \<lparr>calls = [], outcome = Resolved\<rparr>)
      in case outcome purged of
           Resolved \<Rightarrow> (case snapshot_path after of
                           Some q \<Rightarrow> then_effect purged (heatCache_arg E t (at0 q) None)
                         | None \<Rightarrow> purged)
         | _ \<Rightarrow> purged)"

text \<open>
  \<^verbatim>\<open>tanam_onThemeChangeUpdateCache\<close> (lines 56--83). The argument is the previous theme,
  \<open>None\<close> when \<^verbatim>\<open>snap.before.exists()\<close> is false. The loop variable \<^verbatim>\<open>domain\<close> is
  only logged: each round of the loop over \<^verbatim>\<open>site.getDomains()\<close> pushes one
  \<^verbatim>\<open>purgeCache\<close> for every theme file and every document. \<^verbatim>\<open>document.data().path[0]\<close>
  raises a \<^verbatim>\<open>TypeError\<close> when the document has no \<^verbatim>\<open>path\<close>; the loop stops there,
  the handler is rejected, and the purges already started go on.
\<close>

fun purge_documents :: "env \<Rightarrow> nat \<Rightarrow> doc_data list \<Rightarrow> effect list \<times> bool" where
  "purge_documents E t [] = ([], False)"
| "purge_documents E t (document # documents) =
     (case doc_path document of
        None \<Rightarrow> ([], True)
      | Some p \<Rightarrow> (case purge_documents E t documents of
                    (promises, raised) \<Rightarrow> (purgeCache_arg E t (at0 p) # promises, raised)))"

fun purge_domains :: "env \<Rightarrow> nat \<Rightarrow> string list \<Rightarrow> doc_data list \<Rightarrow> string list \<Rightarrow> effect list \<times> bool" where
  "purge_domains E t themeFiles documents [] = ([], False)"
| "purge_domains E t themeFiles documents (d # domains) =
     (let files = map (\<lambda>themeFile. purgeCache E t (getPublicPathToStorageFile E themeFile)) themeFiles
      in case purge_documents E t documents of
           (docs, True) \<Rightarrow> (files @ docs, True)
         | (docs, False) \<Rightarrow> (case purge_domains E t themeFiles documents domains of
                               (promises, raised) \<Rightarrow> (files @ docs @ promises, raised)))"

definition tanam_onThemeChangeUpdateCache :: "env \<Rightarrow> nat \<Rightarrow> string option \<Rightarrow> effect" where
  "tanam_onThemeChangeUpdateCache E t before =
     (case before of
        None \<Rightarrow> \<lparr>calls = [], outcome = Resolved\<rparr>
      | Some previousTheme \<Rightarrow>
          (case purge_domains E t (getThemeFiles E previousTheme) (getAllDocuments E) (getDomains E) of
             (promises, True) \<Rightarrow> \<lparr>calls = concat (map calls promises), outcome = Rejected TypeError\<rparr>
           | (promises, False) \<Rightarrow> all_effects promises))"

section \<open>registerRequestHost\<close>

text \<open>
  \<^verbatim>\<open>registerRequestHost\<close> (lines 99--119). The key of a host is
  \<^verbatim>\<open>SHA256(currentHost).toString().toLowerCase()\<close>: the host is hashed as it is, and
  \<^verbatim>\<open>toLowerCase\<close> is applied to the digest. The function returns
  \<^verbatim>\<open>Promise.all\<close> of the \<^verbatim>\<open>set\<close> calls; the writes and that promise are the result
  here.
\<close>

definition hostHash :: "string \<Rightarrow> string" where
  "hostHash currentHost = toLowerCase (SHA256_toString currentHost)"

definition cachedDomainWrite :: "string \<Rightarrow> db_write" where
  "cachedDomainWrite currentHost =
     \<lparr>db_ref = hostRegistry_path, db_child = hostHash currentHost,
      db_data = \<lparr>domain = currentHost, lastSeen = TIMESTAMP\<rparr>\<rparr>"

definition registerRequestHost :: "env \<Rightarrow> string \<Rightarrow> db_write list \<times> settle" where
  "registerRequestHost E host =
     (let hosts = [host] @ (if endsWith host ''.cloudfunctions.net'' then [getDefaultDomain E] else []);
          writes = map cachedDomainWrite hosts
      in (writes, promise_all (map (db_set E) writes)))"

text \<open>
  The database under \<^verbatim>\<open>cacheDomains\<close>, as a map from child keys to entries:
  \<^verbatim>\<open>set\<close> replaces the child, with the server's time for the placeholder. The writes
  the database acknowledges are the ones it has stored.
\<close>

definition set_value :: "nat \<Rightarrow> (string \<rightharpoonup> nat CachedDomain) \<Rightarrow> db_write \<Rightarrow> (string \<rightharpoonup> nat CachedDomain)" where
  "set_value now store w = store(db_child w \<mapsto> \<lparr>domain = domain (db_data w), lastSeen = now\<rparr>)"

definition stored :: "env \<Rightarrow> nat \<Rightarrow> (string \<rightharpoonup> nat CachedDomain) \<Rightarrow> db_write list \<Rightarrow> (string \<rightharpoonup> nat CachedDomain)" where
  "stored E now store ws =
     foldl (\<lambda>st w. if db_set E w = Resolved then set_value now st w else st) store ws"


section \<open>Facts about the string methods\<close>

lemma endsWith_append: "endsWith (q @ x) x"
  by (simp add: endsWith_def)

lemma endsWith_iff: "endsWith s x \<longleftrightarrow> (\<exists>q. s = q @ x)"
proof
  assume h: "endsWith s x"
  then have "s = take (length s - length x) s @ x"
    by (metis append_take_drop_id endsWith_def)
  then show "\<exists>q. s = q @ x" ..
next
  assume "\<exists>q. s = q @ x"
  then show "endsWith s x" by (auto simp: endsWith_def)
qed

lemma lastIndexOf_from_hit:
  "take (length x) (drop n s) = x \<Longrightarrow> lastIndexOf_from s x n = int n"
  by (cases n) simp_all

lemma lastIndexOf_suffix: "lastIndexOf (q @ x) x = int (length q)"
  by (simp add: lastIndexOf_def lastIndexOf_from_hit)

lemma substr_prefix: "substr (q @ x) 0 (int (length q)) = q"
  by (simp add: substr_def Let_def)

lemma substr_prefix_more:
  "substr (q @ y @ x) 0 (int (length q + length y)) = q @ y"
  using substr_prefix [of "q @ y" x] by simp

lemma filenameVariants_index:
  "filenameVariants (q @ ''/index.html'') = [q @ ''/index.html'', q, q @ ''/'']"
proof -
  have a: "lastIndexOf (q @ ''/index.html'') ''/index.html'' = int (length q)"
    by (rule lastIndexOf_suffix)
  have "lastIndexOf ((q @ ''/'') @ ''index.html'') ''index.html'' = int (length (q @ ''/''))"
    by (rule lastIndexOf_suffix)
  then have b: "lastIndexOf (q @ ''/index.html'') ''index.html'' = int (length q + 1)"
    by simp
  have c: "substr (q @ ''/index.html'') 0 (int (length q)) = q"
    by (rule substr_prefix)
  have "substr ((q @ ''/'') @ ''index.html'') 0 (int (length (q @ ''/''))) = q @ ''/''"
    by (rule substr_prefix)
  then have d: "substr (q @ ''/index.html'') 0 (int (length q + 1)) = q @ ''/''"
    by simp
  show ?thesis
    unfolding filenameVariants_def a b c d using endsWith_append [of q "''/index.html''"]
    by simp
qed

lemma filenameVariants_other:
  "\<not> endsWith p ''/index.html'' \<Longrightarrow> filenameVariants p = [p]"
  by (simp add: filenameVariants_def)

lemma filenameVariants_distinct: "distinct (filenameVariants p)"
proof (cases "endsWith p ''/index.html''")
  case True
  then obtain q where "p = q @ ''/index.html''"
    by (auto simp: endsWith_iff)
  then show ?thesis
    by (simp add: filenameVariants_index)
next
  case False
  then show ?thesis
    by (simp add: filenameVariants_other)
qed

text \<open>
  C6. The expansion is a function of the path alone. For a path \<open>q @ ''/index.html''\<close> it
  is exactly the three distinct strings: the path, the path without the trailing
  \<open>''/index.html''\<close> and the path without the trailing \<open>''index.html''\<close>; a path ends with
  \<open>''/index.html''\<close> exactly when it has that form; for every other path it is the path
  alone; and \<open>''/about/index.html''\<close> expands to \<open>''/about/index.html''\<close>, \<open>''/about''\<close>
  and \<open>''/about/''\<close>.
\<close>

theorem filenameVariants_expand:
  "filenameVariants (q @ ''/index.html'') = [q @ ''/index.html'', q, q @ ''/'']
   \<and> card (set (filenameVariants (q @ ''/index.html''))) = 3
   \<and> (endsWith p ''/index.html'' \<longleftrightarrow> (\<exists>r. p = r @ ''/index.html''))
   \<and> (\<not> endsWith p ''/index.html'' \<longrightarrow> filenameVariants p = [p])
   \<and> set (filenameVariants ''/about/index.html'') = {''/about/index.html'', ''/about'', ''/about/''}"
proof -
  have "distinct (filenameVariants (q @ ''/index.html''))"
    by (rule filenameVariants_distinct)
  then have "card (set (filenameVariants (q @ ''/index.html''))) = 3"
    by (simp add: distinct_card filenameVariants_index del: distinct.simps)
  moreover have "filenameVariants (''/about'' @ ''/index.html'') =
      [''/about'' @ ''/index.html'', ''/about'', ''/about'' @ ''/'']"
    by (rule filenameVariants_index)
  then have "set (filenameVariants ''/about/index.html'') = {''/about/index.html'', ''/about'', ''/about/''}"
    by simp
  ultimately show ?thesis
    by (simp add: filenameVariants_index filenameVariants_other endsWith_iff)
qed

theorem filenameVariants_expand_witness:
  "\<not> endsWith ''/blog/x.html'' ''/index.html'' \<and> filenameVariants ''/blog/x.html'' = [''/blog/x.html'']"
proof -
  have h: "\<not> endsWith ''/blog/x.html'' ''/index.html''"
    by (simp add: endsWith_def)
  with filenameVariants_expand [of "''/docs''" "''/blog/x.html''"] show ?thesis
    by simp
qed

end
